theory Spec2Isabelle
  imports Main "HOL-Library.Word"
begin

unbundle bit_operations_syntax

section \<open>Python values, dictionaries and exceptions\<close>

text \<open>
  The two modules pass plain Python values around. The values covered here are
  \<^verbatim>\<open>None\<close>, booleans, integers, floats, strings, lists, tuples, dictionaries and one
  constructor \<open>VObj\<close> for every other object (a \<^verbatim>\<open>set\<close>, \<^verbatim>\<open>bytes\<close>, a \<^verbatim>\<open>datetime\<close>, ...),
  named by its class. A float is carried as its IEEE-754 binary64 bit pattern and is
  never computed with. Dictionary keys are strings, integers, \<^verbatim>\<open>None\<close> or tuples of keys;
  boolean and float keys (which Python identifies with equal integer keys) are left out.
  Interpreter resource limits (recursion depth, the cap on the number of digits when an
  integer is converted to text) are not modelled.
\<close>

type_synonym float64 = "64 word"

datatype pykey = KStr string | KInt int | KNone | KTuple "pykey list"

datatype pyval =
    VNone
  | VBool bool
  | VInt int
  | VFloat float64
  | VStr string
  | VList "pyval list"
  | VTuple "pyval list"
  | VDict "(pykey \<times> pyval) list"
  | VObj string

text \<open>
  A \<^verbatim>\<open>dict\<close> keeps its items in insertion order, so it is an association list; in a
  dictionary built by Python the keys are pairwise different.
\<close>

type_synonym pydict = "(pykey \<times> pyval) list"

text \<open>
  Exceptions are values. \<open>MissingKeyError\<close> is the class of the metadata module; the four
  classes named \<open>Inference...\<close> and \<open>SeedObject...\<close> are those of the query module;
  \<open>PyException\<close> is the builtin \<^verbatim>\<open>Exception\<close> raised with a message; \<open>KeyError\<close>,
  \<open>TypeError\<close> and \<open>IndexError\<close> are the builtin errors of a failed lookup, of a value
  of the wrong type and of a subscript out of range; \<open>DriverError\<close> stands for
  whatever the database driver raises. All of them derive from \<^verbatim>\<open>Exception\<close>.
\<close>

datatype exn =
    MissingKeyError string
  | KeyError pykey
  | TypeError
  | IndexError
  | DriverError
  | PyException string
  | InferenceCreationError string
  | SeedObjectCreationError string
  | InferenceNotFoundError string
  | InferenceObjectNotFoundError string

text \<open>The class of an exception, as \<^verbatim>\<open>type(e).__name__\<close> gives it.\<close>

fun exn_class :: "exn \<Rightarrow> string" where
  "exn_class (MissingKeyError m) = ''MissingKeyError''"
| "exn_class (KeyError k) = ''KeyError''"
| "exn_class TypeError = ''TypeError''"
| "exn_class IndexError = ''IndexError''"
| "exn_class DriverError = ''DriverError''"
| "exn_class (PyException m) = ''Exception''"
| "exn_class (InferenceCreationError m) = ''InferenceCreationError''"
| "exn_class (SeedObjectCreationError m) = ''SeedObjectCreationError''"
| "exn_class (InferenceNotFoundError m) = ''InferenceNotFoundError''"
| "exn_class (InferenceObjectNotFoundError m) = ''InferenceObjectNotFoundError''"

text \<open>\<^verbatim>\<open>key in d\<close>, \<^verbatim>\<open>d[key]\<close> (which raises \<^verbatim>\<open>KeyError\<close>) and \<^verbatim>\<open>d[key] = value\<close>
  (which overwrites in place or appends).\<close>

fun dict_contains :: "pydict \<Rightarrow> pykey \<Rightarrow> bool" where
  "dict_contains [] key = False"
| "dict_contains ((k, v) # d) key = (k = key \<or> dict_contains d key)"

fun dict_getitem :: "pydict \<Rightarrow> pykey \<Rightarrow> exn + pyval" where
  "dict_getitem [] key = Inl (KeyError key)"
| "dict_getitem ((k, v) # d) key = (if k = key then Inr v else dict_getitem d key)"

fun dict_setitem :: "pydict \<Rightarrow> pykey \<Rightarrow> pyval \<Rightarrow> pydict" where
  "dict_setitem [] key val = [(key, val)]"
| "dict_setitem ((k, v) # d) key val =
     (if k = key then (k, val) # d else (k, v) # dict_setitem d key val)"

text \<open>A dictionary display \<^verbatim>\<open>{k1: v1, k2: v2, ...}\<close> stores its items from left to right.\<close>

definition dict_display :: "(pykey \<times> pyval) list \<Rightarrow> pydict" where
  "dict_display items = foldl (\<lambda>d kv. dict_setitem d (fst kv) (snd kv)) [] items"

text \<open>Running fallible steps from left to right: the first exception ends the run.\<close>

fun sequence :: "(exn + 'a) list \<Rightarrow> exn + 'a list" where
  "sequence [] = Inr []"
| "sequence (Inl e # rs) = Inl e"
| "sequence (Inr x # rs) = (case sequence rs of Inl e \<Rightarrow> Inl e | Inr xs \<Rightarrow> Inr (x # xs))"

section \<open>The \<^verbatim>\<open>json\<close> module\<close>

text \<open>
  \<^verbatim>\<open>json.dumps\<close> returns the text of a JSON document. That text is represented here by
  the document it spells, the members of an object in the order in which they are
  written; the library's printer and scanner, which are inverse to each other on
  documents (whose strings hold no surrogate code points), are not redone. What is modelled is the conversion between Python values and
  documents, with the defaults the code uses: a list and a tuple both become an array; a
  dictionary key that is an integer or \<^verbatim>\<open>None\<close> is written as a string, a tuple as key and
  any object other than the listed ones raise \<^verbatim>\<open>TypeError\<close>; NaN and the infinities are
  accepted.
\<close>

datatype json =
    JNull
  | JBool bool
  | JInt int
  | JFloat float64
  | JString string
  | JArray "json list"
  | JObject "(string \<times> json) list"

text \<open>\<^verbatim>\<open>str\<close> of an integer: its decimal digits.\<close>

fun str_nat :: "nat \<Rightarrow> string" where
  "str_nat n =
     (if n < 10 then [''0123456789'' ! n]
      else str_nat (n div 10) @ [''0123456789'' ! (n mod 10)])"

definition str_int :: "int \<Rightarrow> string" where
  "str_int i = (if i < 0 then CHR ''-'' # str_nat (nat (- i)) else str_nat (nat i))"

fun json_key :: "pykey \<Rightarrow> exn + string" where
  "json_key (KStr s) = Inr s"
| "json_key (KInt i) = Inr (str_int i)"
| "json_key KNone = Inr ''null''"
| "json_key (KTuple ks) = Inl TypeError"

fun json_member :: "exn + string \<Rightarrow> exn + json \<Rightarrow> exn + string \<times> json" where
  "json_member (Inl e) r = Inl e"
| "json_member (Inr s) (Inl e) = Inl e"
| "json_member (Inr s) (Inr j) = Inr (s, j)"

fun json_dumps :: "pyval \<Rightarrow> exn + json" where
  "json_dumps VNone = Inr JNull"
| "json_dumps (VBool b) = Inr (JBool b)"
| "json_dumps (VInt i) = Inr (JInt i)"
| "json_dumps (VFloat w) = Inr (JFloat w)"
| "json_dumps (VStr s) = Inr (JString s)"
| "json_dumps (VList xs) = map_sum id JArray (sequence (map json_dumps xs))"
| "json_dumps (VTuple xs) = map_sum id JArray (sequence (map json_dumps xs))"
| "json_dumps (VDict kvs) =
     map_sum id JObject
       (sequence (map (\<lambda>kv. json_member (json_key (fst kv)) (json_dumps (snd kv))) kvs))"
| "json_dumps (VObj cls) = Inl TypeError"

text \<open>
  \<^verbatim>\<open>json.loads\<close> on the text of a document: an array is read as a list, an object as a
  dictionary with string keys, filled member by member, so that of two members with the
  same name the later value stands at the earlier place.
\<close>

fun json_loads :: "json \<Rightarrow> pyval" where
  "json_loads JNull = VNone"
| "json_loads (JBool b) = VBool b"
| "json_loads (JInt i) = VInt i"
| "json_loads (JFloat w) = VFloat w"
| "json_loads (JString s) = VStr s"
| "json_loads (JArray js) = VList (map json_loads js)"
| "json_loads (JObject ms) =
     VDict (dict_display (map (\<lambda>m. (KStr (fst m), json_loads (snd m))) ms))"

text \<open>
  The values that a document can hold as they are: no tuple, no object of another class,
  only string keys, and no NaN (which Python's \<^verbatim>\<open>==\<close> equates with nothing, itself
  included). A binary64 pattern is a NaN when its exponent bits are all set and its
  fraction is not zero. The keys of a dictionary are pairwise different, as they are in
  every dictionary that Python builds.
\<close>

definition is_nan :: "float64 \<Rightarrow> bool" where
  "is_nan w = (0x7FF0000000000000 < (w AND 0x7FFFFFFFFFFFFFFF))"

fun is_str_key :: "pykey \<Rightarrow> bool" where
  "is_str_key (KStr s) = True"
| "is_str_key k = False"

fun json_native :: "pyval \<Rightarrow> bool" where
  "json_native VNone = True"
| "json_native (VBool b) = True"
| "json_native (VInt i) = True"
| "json_native (VFloat w) = (\<not> is_nan w)"
| "json_native (VStr s) = True"
| "json_native (VList xs) = list_all json_native xs"
| "json_native (VTuple xs) = False"
| "json_native (VDict kvs) =
     (list_all (\<lambda>kv. is_str_key (fst kv) \<and> json_native (snd kv)) kvs \<and> distinct (map fst kvs))"
| "json_native (VObj cls) = False"

section \<open>Metadata of models and pipelines\<close>

text \<open>The loop \<^verbatim>\<open>for key in keys: if not key in record: raise MissingKeyError(key)\<close>.\<close>

fun require_keys :: "string list \<Rightarrow> pydict \<Rightarrow> exn + unit" where
  "require_keys [] record = Inr ()"
| "require_keys (key # keys) record =
     (if \<not> dict_contains record (KStr key) then Inl (MissingKeyError key)
      else require_keys keys record)"

text \<open>
  The handler \<^verbatim>\<open>except MissingKeyError as e: raise MissingKeyError(f"Missing key: {e}")\<close>;
  \<^verbatim>\<open>str(e)\<close> is the key the exception was raised with. Any other exception passes.
\<close>

fun except_MissingKeyError :: "exn + 'a \<Rightarrow> exn + 'a" where
  "except_MissingKeyError (Inl (MissingKeyError e)) = Inl (MissingKeyError (''Missing key: '' @ e))"
| "except_MissingKeyError r = r"

text \<open>One item \<^verbatim>\<open>"key": record["key"]\<close> of a dictionary display.\<close>

definition item_of :: "pydict \<Rightarrow> string \<Rightarrow> exn + pykey \<times> pyval" where
  "item_of record key = map_sum id (Pair (KStr key)) (dict_getitem record (KStr key))"

definition pipeline_keys :: "string list" where
  "pipeline_keys = [''models'', ''created_by'', ''creation_date'', ''description'',
     ''job_name'', ''version'', ''dataset_description'', ''Accuracy'']"

definition build_pipeline_import :: "pydict \<Rightarrow> exn + json" where
  "build_pipeline_import pipeline = except_MissingKeyError
     (case require_keys pipeline_keys pipeline of
        Inl e \<Rightarrow> Inl e
      | Inr u \<Rightarrow>
         (case sequence
            [item_of pipeline ''models'',
             item_of pipeline ''created_by'',
             item_of pipeline ''creation_date'',
             item_of pipeline ''description'',
             item_of pipeline ''job_name'',
             item_of pipeline ''version'',
             item_of pipeline ''dataset_description'',
             item_of pipeline ''Accuracy''] of
            Inl e \<Rightarrow> Inl e
          | Inr items \<Rightarrow> json_dumps (VDict (dict_display items))))"

definition model_keys :: "string list" where
  "model_keys = [''endpoint'', ''api_key'', ''content_type'', ''deployment_platform'',
     ''created_by'', ''creation_date'', ''description'', ''version'', ''job_name'',
     ''dataset_description'', ''Accuracy'']"

definition build_model_import :: "pydict \<Rightarrow> exn + json" where
  "build_model_import model = except_MissingKeyError
     (case require_keys model_keys model of
        Inl e \<Rightarrow> Inl e
      | Inr u \<Rightarrow>
         (case sequence
            [item_of model ''endpoint'',
             item_of model ''api_key'',
             item_of model ''content_type'',
             item_of model ''deployment_platform'',
             item_of model ''created_by'',
             item_of model ''creation_date'',
             item_of model ''description'',
             item_of model ''version'',
             item_of model ''job_name'',
             item_of model ''dataset_description'',
             item_of model ''Accuracy''] of
            Inl e \<Rightarrow> Inl e
          | Inr items \<Rightarrow> json_dumps (VDict (dict_display items))))"






section \<open>The database behind the cursor\<close>

text \<open>
  The query module drives a DB-API cursor. A bound parameter and a column value is an
  \<open>sqlval\<close>. The three tables carry the columns that the statements of the module name,
  and a field \<open>..._rest\<close> for the columns of the table that no statement names: the
  schema is not part of the sources.
\<close>

datatype sqlval = SNull | SBool bool | SInt int | SFloat float64 | SText string | STimestamp nat

record inference_row =
  i_id :: sqlval
  i_inference :: sqlval
  i_picture_id :: sqlval
  i_user_id :: sqlval
  i_feedback_user_id :: sqlval
  i_verified :: sqlval
  i_rest :: "sqlval list"

record object_row =
  o_id :: sqlval
  o_inference_id :: sqlval
  o_box_metadata :: sqlval
  o_type_id :: sqlval
  o_top_id :: sqlval
  o_verified_id :: sqlval
  o_valid :: sqlval
  o_updated_at :: sqlval
  o_rest :: "sqlval list"

record seed_obj_row =
  s_id :: sqlval
  s_seed_id :: sqlval
  s_object_id :: sqlval
  s_score :: sqlval
  s_rest :: "sqlval list"

record database =
  tbl_inference :: "inference_row list"
  tbl_object :: "object_row list"
  tbl_seed_obj :: "seed_obj_row list"

text \<open>
  The twelve statements of the module, each with its bound parameters in the order of
  the tuple handed to \<^verbatim>\<open>cursor.execute\<close>:
  \<^item> \<open>InsertInference\<close>: \<^verbatim>\<open>INSERT INTO inference(inference, picture_id, user_id) VALUES (%s,%s,%s) RETURNING id\<close>
  \<^item> \<open>SelectInference\<close>: \<^verbatim>\<open>SELECT inference FROM inference WHERE id = %s\<close>
  \<^item> \<open>UpdateFeedbackUserId\<close>: \<^verbatim>\<open>UPDATE inference SET feedback_user_id = %s WHERE id = %s\<close>
  \<^item> \<open>UpdateVerified\<close>: \<^verbatim>\<open>UPDATE inference SET verified = %s WHERE id = %s\<close>
  \<^item> \<open>InsertObject\<close>: \<^verbatim>\<open>INSERT INTO object(inference_id, box_metadata, type_id) VALUES (%s,%s,%s) RETURNING id\<close>
  \<^item> \<open>SelectObject\<close>: \<^verbatim>\<open>SELECT * FROM object WHERE id = %s\<close>
  \<^item> \<open>SelectObjectsByInference\<close>: \<^verbatim>\<open>SELECT * FROM object WHERE inference_id = %s\<close>
  \<^item> \<open>UpdateTopId\<close>: \<^verbatim>\<open>UPDATE object SET top_id = %s WHERE id = %s\<close>
  \<^item> \<open>SelectTopId\<close>: \<^verbatim>\<open>SELECT top_id FROM object WHERE id = %s\<close>
  \<^item> \<open>UpdateVerifiedId\<close>: \<^verbatim>\<open>UPDATE object SET verified_id = %s, updated_at = CURRENT_TIMESTAMP WHERE id = %s\<close>
  \<^item> \<open>UpdateValid\<close>: \<^verbatim>\<open>UPDATE object SET valid = %s WHERE id = %s\<close>
  \<^item> \<open>InsertSeedObject\<close>: \<^verbatim>\<open>INSERT INTO seed_obj(seed_id, object_id, score) VALUES (%s,%s,%s) RETURNING id\<close>
\<close>

datatype statement =
    InsertInference sqlval sqlval sqlval
  | SelectInference sqlval
  | UpdateFeedbackUserId sqlval sqlval
  | UpdateVerified sqlval sqlval
  | InsertObject sqlval sqlval sqlval
  | SelectObject sqlval
  | SelectObjectsByInference sqlval
  | UpdateTopId sqlval sqlval
  | SelectTopId sqlval
  | UpdateVerifiedId sqlval sqlval
  | UpdateValid sqlval sqlval
  | InsertSeedObject sqlval sqlval sqlval

text \<open>
  What the sources leave to the database and its driver is a parameter: \<open>rejects\<close> tells
  when the driver raises on a statement (a closed cursor, a lost connection, a violated
  constraint, a parameter that cannot be adapted); the \<open>..._defaults\<close> give the row that
  an insert starts from, with its generated \<open>id\<close> and the defaults of the columns the
  insert does not name; \<open>current_timestamp\<close> is the clock of the database. Triggers
  are taken to be absent.
\<close>

record backend =
  rejects :: "statement \<Rightarrow> database \<Rightarrow> bool"
  inference_defaults :: "database \<Rightarrow> inference_row"
  object_defaults :: "database \<Rightarrow> object_row"
  seed_obj_defaults :: "database \<Rightarrow> seed_obj_row"
  current_timestamp :: "database \<Rightarrow> sqlval"

text \<open>The comparison \<^verbatim>\<open>column = %s\<close> of a \<^verbatim>\<open>WHERE\<close> clause: never true on \<^verbatim>\<open>NULL\<close>.\<close>

definition sql_eq :: "sqlval \<Rightarrow> sqlval \<Rightarrow> bool" where
  "sql_eq a b = (a \<noteq> SNull \<and> b \<noteq> SNull \<and> a = b)"

text \<open>A row of \<^verbatim>\<open>SELECT * FROM object\<close> as the tuple the driver hands out.\<close>

definition object_tuple :: "object_row \<Rightarrow> sqlval list" where
  "object_tuple r =
     [o_id r, o_inference_id r, o_box_metadata r, o_type_id r, o_top_id r, o_verified_id r,
      o_valid r, o_updated_at r] @ o_rest r"

text \<open>The effect of an accepted statement: the new database and the rows it returns
  (\<open>None\<close> when the statement returns no rows).\<close>

fun run :: "backend \<Rightarrow> statement \<Rightarrow> database \<Rightarrow> database \<times> sqlval list list option" where
  "run b (InsertInference inference picture_id user_id) d =
     (let r = (inference_defaults b d)
                \<lparr>i_inference := inference, i_picture_id := picture_id, i_user_id := user_id\<rparr>
      in (d\<lparr>tbl_inference := tbl_inference d @ [r]\<rparr>, Some [[i_id r]]))"
| "run b (SelectInference ident) d =
     (d, Some (map (\<lambda>r. [i_inference r]) (filter (\<lambda>r. sql_eq (i_id r) ident) (tbl_inference d))))"
| "run b (UpdateFeedbackUserId user_id ident) d =
     (d\<lparr>tbl_inference :=
          map (\<lambda>r. if sql_eq (i_id r) ident then r\<lparr>i_feedback_user_id := user_id\<rparr> else r)
            (tbl_inference d)\<rparr>, None)"
| "run b (UpdateVerified verified ident) d =
     (d\<lparr>tbl_inference :=
          map (\<lambda>r. if sql_eq (i_id r) ident then r\<lparr>i_verified := verified\<rparr> else r)
            (tbl_inference d)\<rparr>, None)"
| "run b (InsertObject inference_id box_metadata type_id) d =
     (let r = (object_defaults b d)
                \<lparr>o_inference_id := inference_id, o_box_metadata := box_metadata,
                 o_type_id := type_id\<rparr>
      in (d\<lparr>tbl_object := tbl_object d @ [r]\<rparr>, Some [[o_id r]]))"
| "run b (SelectObject ident) d =
     (d, Some (map object_tuple (filter (\<lambda>r. sql_eq (o_id r) ident) (tbl_object d))))"
| "run b (SelectObjectsByInference inference_id) d =
     (d, Some (map object_tuple
                 (filter (\<lambda>r. sql_eq (o_inference_id r) inference_id) (tbl_object d))))"
| "run b (UpdateTopId top_id ident) d =
     (d\<lparr>tbl_object :=
          map (\<lambda>r. if sql_eq (o_id r) ident then r\<lparr>o_top_id := top_id\<rparr> else r)
            (tbl_object d)\<rparr>, None)"
| "run b (SelectTopId ident) d =
     (d, Some (map (\<lambda>r. [o_top_id r]) (filter (\<lambda>r. sql_eq (o_id r) ident) (tbl_object d))))"
| "run b (UpdateVerifiedId verified_id ident) d =
     (d\<lparr>tbl_object :=
          map (\<lambda>r. if sql_eq (o_id r) ident
                    then r\<lparr>o_verified_id := verified_id, o_updated_at := current_timestamp b d\<rparr>
                    else r)
            (tbl_object d)\<rparr>, None)"
| "run b (UpdateValid valid ident) d =
     (d\<lparr>tbl_object :=
          map (\<lambda>r. if sql_eq (o_id r) ident then r\<lparr>o_valid := valid\<rparr> else r)
            (tbl_object d)\<rparr>, None)"
| "run b (InsertSeedObject seed_id object_id score) d =
     (let r = (seed_obj_defaults b d)
                \<lparr>s_seed_id := seed_id, s_object_id := object_id, s_score := score\<rparr>
      in (d\<lparr>tbl_seed_obj := tbl_seed_obj d @ [r]\<rparr>, Some [[s_id r]]))"

text \<open>
  The cursor: the database it works on, the rows of the last statement that are still to
  be fetched, and the statements handed to \<^verbatim>\<open>execute\<close> so far, oldest first.
\<close>

record cursor =
  db :: database
  pending :: "sqlval list list option"
  sent :: "statement list"

definition execute :: "backend \<Rightarrow> cursor \<Rightarrow> statement \<Rightarrow> (exn + unit) \<times> cursor" where
  "execute b c s =
     (if rejects b s (db c) then (Inl DriverError, c\<lparr>pending := None, sent := sent c @ [s]\<rparr>)
      else (Inr (), \<lparr>db = fst (run b s (db c)), pending = snd (run b s (db c)),
                     sent = sent c @ [s]\<rparr>))"

text \<open>
  \<^verbatim>\<open>fetchone\<close> hands out the next row or \<^verbatim>\<open>None\<close>; \<^verbatim>\<open>fetchall\<close> hands out the list of the rows
  that are left, never \<^verbatim>\<open>None\<close>. Both raise when the last statement returned no rows.
  The result of either is a Python value that the caller may test against \<^verbatim>\<open>None\<close>, hence
  the \<open>option\<close>.
\<close>

definition fetchone :: "cursor \<Rightarrow> (exn + sqlval list option) \<times> cursor" where
  "fetchone c =
     (case pending c of
        None \<Rightarrow> (Inl DriverError, c)
      | Some [] \<Rightarrow> (Inr None, c)
      | Some (row # rows) \<Rightarrow> (Inr (Some row), c\<lparr>pending := Some rows\<rparr>))"

definition fetchall :: "cursor \<Rightarrow> (exn + sqlval list list option) \<times> cursor" where
  "fetchall c =
     (case pending c of
        None \<Rightarrow> (Inl DriverError, c)
      | Some rows \<Rightarrow> (Inr (Some rows), c\<lparr>pending := Some []\<rparr>))"

text \<open>The subscript \<^verbatim>\<open>[0]\<close> on what \<^verbatim>\<open>fetchone\<close> returned.\<close>

fun subscript0 :: "sqlval list option \<Rightarrow> exn + sqlval" where
  "subscript0 None = Inl TypeError"
| "subscript0 (Some []) = Inl IndexError"
| "subscript0 (Some (v # vs)) = Inr v"

text \<open>Sequencing of two steps on the cursor; an exception ends the \<^verbatim>\<open>try\<close> block.\<close>

definition and_then ::
  "(exn + 'a) \<times> cursor \<Rightarrow> ('a \<Rightarrow> cursor \<Rightarrow> (exn + 'b) \<times> cursor) \<Rightarrow> (exn + 'b) \<times> cursor" where
  "and_then r f = (case r of (Inl e, c) \<Rightarrow> (Inl e, c) | (Inr x, c) \<Rightarrow> f x c)"

text \<open>The handler \<^verbatim>\<open>except Exception: raise E(...)\<close>: every exception is replaced.\<close>

definition except_Exception :: "exn \<Rightarrow> (exn + 'a) \<times> cursor \<Rightarrow> (exn + 'a) \<times> cursor" where
  "except_Exception raised r = (case r of (Inl e, c) \<Rightarrow> (Inl raised, c) | (Inr x, c) \<Rightarrow> (Inr x, c))"

text \<open>\<^verbatim>\<open>str\<close> of a boolean, as an f-string formats it.\<close>

definition str_bool :: "bool \<Rightarrow> string" where
  "str_bool b = (if b then ''True'' else ''False'')"

section \<open>Queries on the inference table\<close>

text \<open>
  Every function takes the backend and the cursor and returns its result, or the
  exception it raises, together with the cursor as it leaves it. Parameters have the
  types of their annotations or, where there is none, of the docstring; the \<^verbatim>\<open>type\<close>
  parameter of \<^verbatim>\<open>new_inference\<close> has neither and is of any type.
\<close>

definition new_inference ::
  "backend \<Rightarrow> cursor \<Rightarrow> string \<Rightarrow> string \<Rightarrow> string \<Rightarrow> 't \<Rightarrow> (exn + sqlval) \<times> cursor" where
  "new_inference b cursor inference user_id picture_id type =
     except_Exception (InferenceCreationError ''Error: inference not uploaded'')
       (and_then
          (execute b cursor (InsertInference (SText inference) (SText picture_id) (SText user_id)))
          (\<lambda>u c. and_then (fetchone c) (\<lambda>row c. (subscript0 row, c))))"

definition get_inference :: "backend \<Rightarrow> cursor \<Rightarrow> string \<Rightarrow> (exn + sqlval) \<times> cursor" where
  "get_inference b cursor inference_id =
     except_Exception (InferenceNotFoundError (''Error: could not get inference '' @ inference_id))
       (and_then (execute b cursor (SelectInference (SText inference_id)))
          (\<lambda>u c. and_then (fetchone c) (\<lambda>row c. (subscript0 row, c))))"

definition set_inference_feedback_user_id ::
  "backend \<Rightarrow> cursor \<Rightarrow> string \<Rightarrow> string \<Rightarrow> (exn + unit) \<times> cursor" where
  "set_inference_feedback_user_id b cursor inference_id user_id =
     except_Exception
       (PyException (''Error: could not set feedback_user_id '' @ user_id @ '' for inference ''
          @ inference_id))
       (execute b cursor (UpdateFeedbackUserId (SText user_id) (SText inference_id)))"

definition set_inference_verified ::
  "backend \<Rightarrow> cursor \<Rightarrow> string \<Rightarrow> bool \<Rightarrow> (exn + unit) \<times> cursor" where
  "set_inference_verified b cursor inference_id is_verified =
     except_Exception
       (PyException (''Error: could not update verified '' @ str_bool is_verified
          @ '' for inference '' @ inference_id))
       (execute b cursor (UpdateVerified (SBool is_verified) (SText inference_id)))"

section \<open>Queries on the object table\<close>

definition new_inference_object ::
  "backend \<Rightarrow> cursor \<Rightarrow> string \<Rightarrow> string \<Rightarrow> int \<Rightarrow> (exn + sqlval) \<times> cursor" where
  "new_inference_object b cursor inference_id box_metadata type_id =
     except_Exception (InferenceCreationError ''Error: inference object not uploaded'')
       (and_then
          (execute b cursor (InsertObject (SText inference_id) (SText box_metadata) (SInt type_id)))
          (\<lambda>u c. and_then (fetchone c) (\<lambda>row c. (subscript0 row, c))))"

definition get_inference_object ::
  "backend \<Rightarrow> cursor \<Rightarrow> string \<Rightarrow> (exn + sqlval list) \<times> cursor" where
  "get_inference_object b cursor inference_object_id =
     except_Exception
       (InferenceObjectNotFoundError
          (''Error: could not get inference object for id '' @ inference_object_id))
       (and_then (execute b cursor (SelectObject (SText inference_object_id)))
          (\<lambda>u c. and_then (fetchone c)
             (\<lambda>res c. case res of
                  None \<Rightarrow>
                    (Inl (PyException
                       (''Error: could not find inference object for id '' @ inference_object_id)), c)
                | Some row \<Rightarrow> (Inr row, c))))"

definition get_objects_by_inference ::
  "backend \<Rightarrow> cursor \<Rightarrow> string \<Rightarrow> (exn + sqlval list list) \<times> cursor" where
  "get_objects_by_inference b cursor inference_id =
     except_Exception
       (InferenceObjectNotFoundError
          (''Error: could not get objects for inference '' @ inference_id))
       (and_then (execute b cursor (SelectObjectsByInference (SText inference_id)))
          (\<lambda>u c. and_then (fetchall c)
             (\<lambda>res c. case res of
                  None \<Rightarrow>
                    (Inl (PyException
                       (''Error: could not find objects for inference '' @ inference_id)), c)
                | Some rows \<Rightarrow> (Inr rows, c))))"

definition set_inference_object_top_id ::
  "backend \<Rightarrow> cursor \<Rightarrow> string \<Rightarrow> string \<Rightarrow> (exn + unit) \<times> cursor" where
  "set_inference_object_top_id b cursor inference_object_id top_id =
     except_Exception
       (PyException (''Error: could not set top_id '' @ top_id @ '' for inference ''
          @ inference_object_id))
       (execute b cursor (UpdateTopId (SText top_id) (SText inference_object_id)))"

definition get_inference_object_top_id ::
  "backend \<Rightarrow> cursor \<Rightarrow> string \<Rightarrow> (exn + sqlval) \<times> cursor" where
  "get_inference_object_top_id b cursor inference_object_id =
     except_Exception
       (PyException (''Error: could not get top_inference_id for inference ''
          @ inference_object_id))
       (and_then (execute b cursor (SelectTopId (SText inference_object_id)))
          (\<lambda>u c. and_then (fetchone c) (\<lambda>row c. (subscript0 row, c))))"

definition set_inference_object_verified_id ::
  "backend \<Rightarrow> cursor \<Rightarrow> string \<Rightarrow> string \<Rightarrow> (exn + unit) \<times> cursor" where
  "set_inference_object_verified_id b cursor inference_object_id verified_id =
     except_Exception
       (PyException (''Error: could not update verified_id for object '' @ inference_object_id))
       (execute b cursor (UpdateVerifiedId (SText verified_id) (SText inference_object_id)))"

definition set_inference_object_valid ::
  "backend \<Rightarrow> cursor \<Rightarrow> string \<Rightarrow> bool \<Rightarrow> (exn + unit) \<times> cursor" where
  "set_inference_object_valid b cursor inference_object_id is_valid =
     except_Exception
       (PyException (''Error: could not update valid for object '' @ inference_object_id))
       (execute b cursor (UpdateValid (SBool is_valid) (SText inference_object_id)))"

section \<open>Queries on the seed object table\<close>

definition new_seed_object ::
  "backend \<Rightarrow> cursor \<Rightarrow> string \<Rightarrow> string \<Rightarrow> float64 \<Rightarrow> (exn + sqlval) \<times> cursor" where
  "new_seed_object b cursor seed_id object_id score =
     except_Exception (SeedObjectCreationError ''Error: seed object not uploaded'')
       (and_then
          (execute b cursor (InsertSeedObject (SText seed_id) (SText object_id) (SFloat score)))
          (\<lambda>u c. and_then (fetchone c) (\<lambda>row c. (subscript0 row, c))))"

section \<open>Sample data\<close>

text \<open>
  A pipeline and a model with every required key and one more; the same pipeline with a
  \<^verbatim>\<open>set\<close> of model names, the same model with a tuple as version, and the pipeline without
  its \<^verbatim>\<open>Accuracy\<close>. The accuracy is the float \<^verbatim>\<open>0.9\<close>.
\<close>

definition sample_pipeline :: pydict where
  "sample_pipeline =
     [(KStr ''pipeline_name'', VStr ''p1''),
      (KStr ''models'', VList [VStr ''m1'']),
      (KStr ''created_by'', VStr ''u1''),
      (KStr ''creation_date'', VStr ''2024-01-01''),
      (KStr ''description'', VStr ''d''),
      (KStr ''job_name'', VStr ''j''),
      (KStr ''version'', VStr ''1''),
      (KStr ''dataset_description'', VStr ''dd''),
      (KStr ''Accuracy'', VFloat 0x3FECCCCCCCCCCCCD)]"

definition sample_model :: pydict where
  "sample_model =
     [(KStr ''Accuracy'', VFloat 0x3FECCCCCCCCCCCCD),
      (KStr ''endpoint'', VStr ''https://e''),
      (KStr ''api_key'', VStr ''k''),
      (KStr ''content_type'', VStr ''application/json''),
      (KStr ''deployment_platform'', VDict [(KStr ''azure'', VInt 1)]),
      (KStr ''created_by'', VStr ''u1''),
      (KStr ''creation_date'', VStr ''2024-01-01''),
      (KStr ''description'', VStr ''d''),
      (KStr ''version'', VStr ''1''),
      (KStr ''job_name'', VStr ''j''),
      (KStr ''dataset_description'', VStr ''dd''),
      (KStr ''model_name'', VStr ''m1'')]"

definition pipeline_with_set :: pydict where
  "pipeline_with_set = dict_setitem sample_pipeline (KStr ''models'') (VObj ''set'')"

definition model_with_tuple :: pydict where
  "model_with_tuple = dict_setitem sample_model (KStr ''version'') (VTuple [VInt 1, VInt 0])"

definition pipeline_without_accuracy :: pydict where
  "pipeline_without_accuracy = butlast sample_pipeline"

text \<open>
  A backend that accepts every statement or, when \<open>down\<close>, none; generated ids count
  the rows of the table. A database with one inference and two objects, of which the
  first belongs to that inference, and a cursor on it.
\<close>

definition sample_backend :: "bool \<Rightarrow> backend" where
  "sample_backend down =
     \<lparr>rejects = (\<lambda>s d. down),
      inference_defaults = (\<lambda>d.
        \<lparr>i_id = SInt (int (length (tbl_inference d))), i_inference = SNull, i_picture_id = SNull,
         i_user_id = SNull, i_feedback_user_id = SNull, i_verified = SBool False, i_rest = []\<rparr>),
      object_defaults = (\<lambda>d.
        \<lparr>o_id = SInt (int (length (tbl_object d))), o_inference_id = SNull,
         o_box_metadata = SNull, o_type_id = SNull, o_top_id = SNull, o_verified_id = SNull,
         o_valid = SBool True, o_updated_at = STimestamp 0, o_rest = []\<rparr>),
      seed_obj_defaults = (\<lambda>d.
        \<lparr>s_id = SInt (int (length (tbl_seed_obj d))), s_seed_id = SNull, s_object_id = SNull,
         s_score = SNull, s_rest = []\<rparr>),
      current_timestamp = (\<lambda>d. STimestamp 7)\<rparr>"

definition sample_database :: database where
  "sample_database =
     \<lparr>tbl_inference =
        [\<lparr>i_id = SText ''inf-1'', i_inference = SText ''{}'', i_picture_id = SText ''pic-1'',
          i_user_id = SText ''u1'', i_feedback_user_id = SNull, i_verified = SBool False,
          i_rest = []\<rparr>],
      tbl_object =
        [\<lparr>o_id = SText ''obj-1'', o_inference_id = SText ''inf-1'', o_box_metadata = SText ''{}'',
          o_type_id = SInt 1, o_top_id = SNull, o_verified_id = SNull, o_valid = SBool True,
          o_updated_at = STimestamp 3, o_rest = []\<rparr>,
         \<lparr>o_id = SText ''obj-2'', o_inference_id = SText ''inf-2'', o_box_metadata = SText ''{}'',
          o_type_id = SInt 1, o_top_id = SNull, o_verified_id = SNull, o_valid = SBool True,
          o_updated_at = STimestamp 4, o_rest = []\<rparr>],
      tbl_seed_obj = []\<rparr>"

definition sample_cursor :: cursor where
  "sample_cursor = \<lparr>db = sample_database, pending = None, sent = []\<rparr>"

section \<open>Facts about dictionaries and the \<^verbatim>\<open>json\<close> conversions\<close>

lemma dict_contains_map_of: "dict_contains d k = (map_of d k \<noteq> None)"
  by (induction d k rule: dict_contains.induct) auto

lemma dict_getitem_map_of:
  "dict_getitem d k = (case map_of d k of None \<Rightarrow> Inl (KeyError k) | Some v \<Rightarrow> Inr v)"
  by (induction d k rule: dict_getitem.induct) auto



lemma dict_setitem_fresh:
  "key \<notin> fst ` set d \<Longrightarrow> dict_setitem d key val = d @ [(key, val)]"
  by (induction d key val rule: dict_setitem.induct) auto

lemma foldl_setitem_distinct:
  "distinct (map fst (acc @ items)) \<Longrightarrow>
   foldl (\<lambda>d kv. dict_setitem d (fst kv) (snd kv)) acc items = acc @ items"
proof (induction items arbitrary: acc)
  case Nil
  then show ?case by simp
next
  case (Cons kv items)
  from Cons.prems have fresh: "fst kv \<notin> fst ` set acc" by auto
  from Cons.prems have "distinct (map fst ((acc @ [kv]) @ items))" by simp
  then have "foldl (\<lambda>d kv. dict_setitem d (fst kv) (snd kv)) (acc @ [kv]) items
             = (acc @ [kv]) @ items"
    by (rule Cons.IH)
  with fresh show ?case by (simp add: dict_setitem_fresh)
qed

lemma dict_display_distinct: "distinct (map fst items) \<Longrightarrow> dict_display items = items"
  using foldl_setitem_distinct [of "[]" items] by (simp add: dict_display_def)

lemma sequence_map_inverse:
  "\<forall>x\<in>set xs. map_sum id h (f x) = Inr x \<Longrightarrow>
   \<exists>ys. sequence (map f xs) = Inr ys \<and> map h ys = xs"
proof (induction xs)
  case Nil
  then show ?case by simp
next
  case (Cons x xs)
  then obtain ys where ys: "sequence (map f xs) = Inr ys" "map h ys = xs" by auto
  from Cons.prems obtain y where y: "f x = Inr y" "h y = x"
    by (cases "f x") auto
  with ys show ?case by simp
qed

text \<open>Reading back what was written gives the value itself, on the values a document
  holds as they are.\<close>

lemma native_roundtrip: "json_native v \<Longrightarrow> map_sum id json_loads (json_dumps v) = Inr v"
proof (induction v)
  case (VList xs)
  have "\<forall>x\<in>set xs. map_sum id json_loads (json_dumps x) = Inr x"
  proof
    fix x assume x: "x \<in> set xs"
    with VList.prems have "json_native x" by (simp add: list_all_iff)
    with x show "map_sum id json_loads (json_dumps x) = Inr x" by (rule VList.IH)
  qed
  from sequence_map_inverse [OF this] show ?case by auto
next
  case (VDict kvs)
  let ?f = "\<lambda>kv. json_member (json_key (fst kv)) (json_dumps (snd kv))"
  let ?h = "\<lambda>m. (KStr (fst m), json_loads (snd m))"
  have "\<forall>kv\<in>set kvs. map_sum id ?h (?f kv) = Inr kv"
  proof
    fix kv assume kv: "kv \<in> set kvs"
    obtain k v where [simp]: "kv = (k, v)" by (cases kv)
    from kv VDict.prems have key: "is_str_key k" and native: "json_native v"
      by (auto simp: list_all_iff)
    have "map_sum id json_loads (json_dumps v) = Inr v"
    proof (rule VDict.IH)
      show "kv \<in> set kvs" by fact
      show "v \<in> Basic_BNFs.snds kv" by simp
      show "json_native v" by fact
    qed
    with key show "map_sum id ?h (?f kv) = Inr kv"
      by (cases k; cases "json_dumps v") auto
  qed
  from sequence_map_inverse [OF this] obtain ms
    where "sequence (map ?f kvs) = Inr ms" "map ?h ms = kvs" by blast
  with VDict.prems show ?case by (simp add: dict_display_distinct)
qed simp_all

section \<open>The import builders\<close>

lemma require_keys_find:
  "require_keys keys record =
     (case find (\<lambda>key. \<not> dict_contains record (KStr key)) keys of
        None \<Rightarrow> Inr () | Some key \<Rightarrow> Inl (MissingKeyError key))"
  by (induction keys) auto

lemma item_of_present:
  "map_of record (KStr key) = Some v \<Longrightarrow> item_of record key = Inr (KStr key, v)"
  by (simp add: item_of_def dict_getitem_map_of)

lemma import_ok_pipeline:
  assumes "\<forall>key\<in>set pipeline_keys.
             map_of pipeline (KStr key) = Some (val key) \<and> json_dumps (val key) = Inr (doc key)"
  shows "build_pipeline_import pipeline =
         Inr (JObject (map (\<lambda>key. (key, doc key)) pipeline_keys))"
  using assms
  by (simp add: build_pipeline_import_def pipeline_keys_def dict_contains_map_of
      item_of_present dict_display_def)

lemma import_ok_model:
  assumes "\<forall>key\<in>set model_keys.
             map_of model (KStr key) = Some (val key) \<and> json_dumps (val key) = Inr (doc key)"
  shows "build_model_import model = Inr (JObject (map (\<lambda>key. (key, doc key)) model_keys))"
  using assms
  by (simp add: build_model_import_def model_keys_def dict_contains_map_of
      item_of_present dict_display_def)

lemma find_missing:
  "\<exists>key\<in>set keys. \<not> dict_contains record (KStr key) \<Longrightarrow>
   \<exists>k. find (\<lambda>key. \<not> dict_contains record (KStr key)) keys = Some k"
  by (cases "find (\<lambda>key. \<not> dict_contains record (KStr key)) keys") (auto simp: find_None_iff)

lemma restrict_items:
  "\<forall>key\<in>set keys. m (KStr key) = Some (val key) \<Longrightarrow>
   map_of (map (\<lambda>key. (KStr key, val key)) keys) = m |` (KStr ` set keys)"
  by (induction keys) (auto simp: fun_eq_iff restrict_map_def)

text \<open>
  C1, as the code has it. When a record holds every required key and \<^verbatim>\<open>json.dumps\<close> can
  write the values under them, \<^verbatim>\<open>build_pipeline_import\<close> and \<^verbatim>\<open>build_model_import\<close> return
  the document of an object with exactly the required keys, in the order of the key list,
  each bound to the document of the value the record holds under it; every other key of
  the record is dropped.
\<close>

theorem import_keeps_required_fields:
  "((\<forall>key\<in>set pipeline_keys.
       map_of pipeline (KStr key) = Some (pval key) \<and> json_dumps (pval key) = Inr (pdoc key)) \<longrightarrow>
    build_pipeline_import pipeline =
      Inr (JObject (map (\<lambda>key. (key, pdoc key)) pipeline_keys))) \<and>
   ((\<forall>key\<in>set model_keys.
       map_of model (KStr key) = Some (mval key) \<and> json_dumps (mval key) = Inr (mdoc key)) \<longrightarrow>
    build_model_import model =
      Inr (JObject (map (\<lambda>key. (key, mdoc key)) model_keys)))"
  using import_ok_pipeline [of pipeline pval pdoc] import_ok_model [of model mval mdoc]
  by blast

theorem import_keeps_required_fields_witness:
  "build_pipeline_import sample_pipeline =
     Inr (JObject
       [(''models'', JArray [JString ''m1'']),
        (''created_by'', JString ''u1''),
        (''creation_date'', JString ''2024-01-01''),
        (''description'', JString ''d''),
        (''job_name'', JString ''j''),
        (''version'', JString ''1''),
        (''dataset_description'', JString ''dd''),
        (''Accuracy'', JFloat 0x3FECCCCCCCCCCCCD)]) \<and>
   build_model_import sample_model =
     Inr (JObject
       [(''endpoint'', JString ''https://e''),
        (''api_key'', JString ''k''),
        (''content_type'', JString ''application/json''),
        (''deployment_platform'', JObject [(''azure'', JInt 1)]),
        (''created_by'', JString ''u1''),
        (''creation_date'', JString ''2024-01-01''),
        (''description'', JString ''d''),
        (''version'', JString ''1''),
        (''job_name'', JString ''j''),
        (''dataset_description'', JString ''dd''),
        (''Accuracy'', JFloat 0x3FECCCCCCCCCCCCD)])"
  using import_keeps_required_fields
    [of sample_pipeline "\<lambda>key. the (map_of sample_pipeline (KStr key))"
        "\<lambda>key. projr (json_dumps (the (map_of sample_pipeline (KStr key))))"
        sample_model "\<lambda>key. the (map_of sample_model (KStr key))"
        "\<lambda>key. projr (json_dumps (the (map_of sample_model (KStr key))))"]
  by (simp add: sample_pipeline_def sample_model_def pipeline_keys_def model_keys_def)

text \<open>
  C1 as stated fails: a pipeline that holds every required key, with a \<^verbatim>\<open>set\<close> as its
  \<^verbatim>\<open>models\<close>, passes the check of the keys and then makes \<^verbatim>\<open>json.dumps\<close> raise
  \<^verbatim>\<open>TypeError\<close>, which the handler for \<^verbatim>\<open>MissingKeyError\<close> lets through.
\<close>

theorem import_unserialisable_counterexample:
  "require_keys pipeline_keys pipeline_with_set = Inr () \<and>
   build_pipeline_import pipeline_with_set = Inl TypeError"
  by (simp add: build_pipeline_import_def pipeline_with_set_def sample_pipeline_def
      pipeline_keys_def item_of_def dict_display_def)

text \<open>
  C2. When a record lacks a required key, \<^verbatim>\<open>build_pipeline_import\<close> and
  \<^verbatim>\<open>build_model_import\<close> raise \<^verbatim>\<open>MissingKeyError\<close> with the message \<^verbatim>\<open>Missing key: \<close> followed
  by the first key of the key list that the record lacks; there is no result.
\<close>

theorem import_names_first_missing_key:
  "((\<exists>key\<in>set pipeline_keys. \<not> dict_contains pipeline (KStr key)) \<longrightarrow>
    (\<exists>k. find (\<lambda>key. \<not> dict_contains pipeline (KStr key)) pipeline_keys = Some k \<and>
         build_pipeline_import pipeline = Inl (MissingKeyError (''Missing key: '' @ k)))) \<and>
   ((\<exists>key\<in>set model_keys. \<not> dict_contains model (KStr key)) \<longrightarrow>
    (\<exists>k. find (\<lambda>key. \<not> dict_contains model (KStr key)) model_keys = Some k \<and>
         build_model_import model = Inl (MissingKeyError (''Missing key: '' @ k))))"
proof (intro conjI impI)
  assume "\<exists>key\<in>set pipeline_keys. \<not> dict_contains pipeline (KStr key)"
  then obtain k where "find (\<lambda>key. \<not> dict_contains pipeline (KStr key)) pipeline_keys = Some k"
    using find_missing by blast
  then show "\<exists>k. find (\<lambda>key. \<not> dict_contains pipeline (KStr key)) pipeline_keys = Some k \<and>
      build_pipeline_import pipeline = Inl (MissingKeyError (''Missing key: '' @ k))"
    by (simp add: build_pipeline_import_def require_keys_find)
next
  assume "\<exists>key\<in>set model_keys. \<not> dict_contains model (KStr key)"
  then obtain k where "find (\<lambda>key. \<not> dict_contains model (KStr key)) model_keys = Some k"
    using find_missing by blast
  then show "\<exists>k. find (\<lambda>key. \<not> dict_contains model (KStr key)) model_keys = Some k \<and>
      build_model_import model = Inl (MissingKeyError (''Missing key: '' @ k))"
    by (simp add: build_model_import_def require_keys_find)
qed

theorem import_names_first_missing_key_witness:
  "build_pipeline_import pipeline_without_accuracy =
     Inl (MissingKeyError ''Missing key: Accuracy'') \<and>
   build_model_import [(KStr ''endpoint'', VStr ''https://e'')] =
     Inl (MissingKeyError ''Missing key: api_key'')"
  using import_names_first_missing_key
    [of pipeline_without_accuracy "[(KStr ''endpoint'', VStr ''https://e'')]"]
  by (simp add: pipeline_without_accuracy_def sample_pipeline_def pipeline_keys_def
      model_keys_def)

section \<open>The export builders\<close>




section \<open>Writing a model and reading it back\<close>

lemma roundtrip_model:
  assumes "\<forall>key\<in>set model_keys. map_of model (KStr key) = Some (val key) \<and> json_native (val key)"
  shows "map_sum id json_loads (build_model_import model) =
         Inr (VDict (map (\<lambda>key. (KStr key, val key)) model_keys))"
proof -
  define doc where "doc key = projr (json_dumps (val key))" for key
  have *: "json_dumps (val key) = Inr (doc key) \<and> json_loads (doc key) = val key"
    if "key \<in> set model_keys" for key
    using native_roundtrip [of "val key"] assms that
    by (cases "json_dumps (val key)") (auto simp: doc_def)
  let ?ms = "map (\<lambda>key. (key, doc key)) model_keys"
  let ?items = "map (\<lambda>key. (KStr key, val key)) model_keys"
  from assms * have built: "build_model_import model = Inr (JObject ?ms)"
    by (intro import_ok_model [of model val doc]) simp
  have read: "map (\<lambda>m. (KStr (fst m), json_loads (snd m))) ?ms = ?items"
    using * by simp
  have "distinct (map fst ?items)"
    by (simp add: model_keys_def)
  then have "dict_display ?items = ?items"
    by (rule dict_display_distinct)
  with built read show ?thesis
    by (simp only: map_sum.simps json_loads.simps)
qed

text \<open>
  C7, as the code has it. When a model holds every required key and the values under
  them are values a document holds as they are (\<^verbatim>\<open>None\<close>, booleans, integers, floats
  other than NaN, strings, lists of such values and dictionaries of such values with
  string keys), reading back what \<^verbatim>\<open>build_model_import\<close> returns gives the dictionary of
  the required keys, each with the value the model holds under it: the model restricted
  to the required keys.
\<close>

theorem roundtrip_restricts_to_required_keys:
  "(\<forall>key\<in>set model_keys. map_of model (KStr key) = Some (val key) \<and> json_native (val key)) \<longrightarrow>
   map_sum id json_loads (build_model_import model) =
     Inr (VDict (map (\<lambda>key. (KStr key, val key)) model_keys)) \<and>
   map_of (map (\<lambda>key. (KStr key, val key)) model_keys) =
     map_of model |` (KStr ` set model_keys)"
  using roundtrip_model [of model val] restrict_items [of model_keys "map_of model" val]
  by blast

theorem roundtrip_restricts_to_required_keys_witness:
  "map_sum id json_loads (build_model_import sample_model) =
     Inr (VDict
       [(KStr ''endpoint'', VStr ''https://e''),
        (KStr ''api_key'', VStr ''k''),
        (KStr ''content_type'', VStr ''application/json''),
        (KStr ''deployment_platform'', VDict [(KStr ''azure'', VInt 1)]),
        (KStr ''created_by'', VStr ''u1''),
        (KStr ''creation_date'', VStr ''2024-01-01''),
        (KStr ''description'', VStr ''d''),
        (KStr ''version'', VStr ''1''),
        (KStr ''job_name'', VStr ''j''),
        (KStr ''dataset_description'', VStr ''dd''),
        (KStr ''Accuracy'', VFloat 0x3FECCCCCCCCCCCCD)])"
proof -
  let ?val = "\<lambda>key. the (map_of sample_model (KStr key))"
  have present: "\<forall>key\<in>set model_keys.
      map_of sample_model (KStr key) = Some (?val key) \<and> json_native (?val key)"
    by (simp add: sample_model_def model_keys_def is_nan_def)
  with roundtrip_restricts_to_required_keys [of sample_model ?val]
  have "map_sum id json_loads (build_model_import sample_model) =
          Inr (VDict (map (\<lambda>key. (KStr key, ?val key)) model_keys))"
    by blast
  then show ?thesis
    by (simp add: sample_model_def model_keys_def)
qed

text \<open>
  C7 as stated fails: a model that holds every required key, with the tuple \<^verbatim>\<open>(1, 0)\<close> as
  its version, is written with an array for the version and read back with the list
  \<^verbatim>\<open>[1, 0]\<close>, which is not the tuple.
\<close>

theorem roundtrip_tuple_counterexample:
  "require_keys model_keys model_with_tuple = Inr () \<and>
   dict_getitem model_with_tuple (KStr ''version'') = Inr (VTuple [VInt 1, VInt 0]) \<and>
   map_sum id json_loads (build_model_import model_with_tuple) =
     Inr (VDict
       [(KStr ''endpoint'', VStr ''https://e''),
        (KStr ''api_key'', VStr ''k''),
        (KStr ''content_type'', VStr ''application/json''),
        (KStr ''deployment_platform'', VDict [(KStr ''azure'', VInt 1)]),
        (KStr ''created_by'', VStr ''u1''),
        (KStr ''creation_date'', VStr ''2024-01-01''),
        (KStr ''description'', VStr ''d''),
        (KStr ''version'', VList [VInt 1, VInt 0]),
        (KStr ''job_name'', VStr ''j''),
        (KStr ''dataset_description'', VStr ''dd''),
        (KStr ''Accuracy'', VFloat 0x3FECCCCCCCCCCCCD)])"
  by (simp add: build_model_import_def model_with_tuple_def sample_model_def model_keys_def
      item_of_def dict_display_def)

section \<open>The cursor and the \<^verbatim>\<open>try\<close> blocks\<close>

lemma sql_eq_text [simp]: "sql_eq a (SText s) = (a = SText s)"
  by (auto simp: sql_eq_def)

text \<open>The block \<^verbatim>\<open>cursor.execute(...); return cursor.fetchone()[0]\<close> under a handler that
  raises \<open>E\<close>: it returns the first column of the first row, if there is one.\<close>

lemma first_column_result:
  "fst (except_Exception E
          (and_then (execute b c s)
             (\<lambda>u c. and_then (fetchone c) (\<lambda>row c. (subscript0 row, c))))) =
     (if rejects b s (db c) then Inl E
      else case snd (run b s (db c)) of
             None \<Rightarrow> Inl E
           | Some [] \<Rightarrow> Inl E
           | Some ([] # rows) \<Rightarrow> Inl E
           | Some ((v # vs) # rows) \<Rightarrow> Inr v)"
  by (simp add: except_Exception_def and_then_def execute_def fetchone_def
      split: option.splits list.splits)

lemma first_column_sent:
  "sent (snd (except_Exception E
          (and_then (execute b c s)
             (\<lambda>u c. and_then (fetchone c) (\<lambda>row c. (subscript0 row, c)))))) = sent c @ [s]"
  by (simp add: except_Exception_def and_then_def execute_def fetchone_def
      split: option.splits list.splits sum.splits)

text \<open>The block \<^verbatim>\<open>cursor.execute(...)\<close> of a setter under a handler that raises \<open>E\<close>.\<close>

lemma setter_result:
  "fst (except_Exception E (execute b c s)) = (if rejects b s (db c) then Inl E else Inr ())"
  by (simp add: except_Exception_def execute_def)

lemma setter_db:
  "db (snd (except_Exception E (execute b c s))) =
     (if rejects b s (db c) then db c else fst (run b s (db c)))"
  by (simp add: except_Exception_def execute_def)

lemma map_unchanged: "\<forall>r\<in>set rows. \<not> P r \<Longrightarrow> map (\<lambda>r. if P r then f r else r) rows = rows"
  by (induction rows) auto

section \<open>Reading\<close>

lemma get_inference_result:
  "fst (get_inference b c inference_id) =
     (if rejects b (SelectInference (SText inference_id)) (db c)
      then Inl (InferenceNotFoundError (''Error: could not get inference '' @ inference_id))
      else case filter (\<lambda>r. i_id r = SText inference_id) (tbl_inference (db c)) of
             [] \<Rightarrow> Inl (InferenceNotFoundError (''Error: could not get inference '' @ inference_id))
           | r # rs \<Rightarrow> Inr (i_inference r))"
  unfolding get_inference_def first_column_result
  by (simp split: list.splits)

lemma get_inference_object_result:
  "fst (get_inference_object b c inference_object_id) =
     (if rejects b (SelectObject (SText inference_object_id)) (db c)
      then Inl (InferenceObjectNotFoundError
             (''Error: could not get inference object for id '' @ inference_object_id))
      else case filter (\<lambda>r. o_id r = SText inference_object_id) (tbl_object (db c)) of
             [] \<Rightarrow> Inl (InferenceObjectNotFoundError
                     (''Error: could not get inference object for id '' @ inference_object_id))
           | r # rs \<Rightarrow> Inr (object_tuple r))"
  by (simp add: get_inference_object_def except_Exception_def and_then_def execute_def
      fetchone_def split: list.splits)

lemma get_objects_by_inference_result:
  "fst (get_objects_by_inference b c inference_id) =
     (if rejects b (SelectObjectsByInference (SText inference_id)) (db c)
      then Inl (InferenceObjectNotFoundError
             (''Error: could not get objects for inference '' @ inference_id))
      else Inr (map object_tuple
                  (filter (\<lambda>r. o_inference_id r = SText inference_id) (tbl_object (db c)))))"
  by (simp add: get_objects_by_inference_def except_Exception_def and_then_def execute_def
      fetchall_def)

lemma get_inference_object_top_id_result:
  "fst (get_inference_object_top_id b c inference_object_id) =
     (if rejects b (SelectTopId (SText inference_object_id)) (db c)
      then Inl (PyException
             (''Error: could not get top_inference_id for inference '' @ inference_object_id))
      else case filter (\<lambda>r. o_id r = SText inference_object_id) (tbl_object (db c)) of
             [] \<Rightarrow> Inl (PyException
                     (''Error: could not get top_inference_id for inference ''
                        @ inference_object_id))
           | r # rs \<Rightarrow> Inr (o_top_id r))"
  unfolding get_inference_object_top_id_def first_column_result
  by (simp split: list.splits)

text \<open>
  C3, as the code has it. \<^verbatim>\<open>get_inference\<close> and \<^verbatim>\<open>get_inference_object\<close> raise the not-found
  error of their entity, \<^verbatim>\<open>InferenceNotFoundError\<close> and \<^verbatim>\<open>InferenceObjectNotFoundError\<close>, both
  when the driver raises and when no row has the id, and return the first row otherwise.
  \<^verbatim>\<open>get_objects_by_inference\<close> raises \<^verbatim>\<open>InferenceObjectNotFoundError\<close> when the driver raises;
  when no row matches it returns the empty list.
\<close>

theorem read_errors_are_not_found:
  "fst (get_inference b c inference_id) =
     (if rejects b (SelectInference (SText inference_id)) (db c) \<or>
         filter (\<lambda>r. i_id r = SText inference_id) (tbl_inference (db c)) = []
      then Inl (InferenceNotFoundError (''Error: could not get inference '' @ inference_id))
      else Inr (i_inference (hd (filter (\<lambda>r. i_id r = SText inference_id)
                                   (tbl_inference (db c)))))) \<and>
   fst (get_inference_object b c object_id) =
     (if rejects b (SelectObject (SText object_id)) (db c) \<or>
         filter (\<lambda>r. o_id r = SText object_id) (tbl_object (db c)) = []
      then Inl (InferenceObjectNotFoundError
             (''Error: could not get inference object for id '' @ object_id))
      else Inr (object_tuple (hd (filter (\<lambda>r. o_id r = SText object_id)
                                    (tbl_object (db c)))))) \<and>
   fst (get_objects_by_inference b c inference_id) =
     (if rejects b (SelectObjectsByInference (SText inference_id)) (db c)
      then Inl (InferenceObjectNotFoundError
             (''Error: could not get objects for inference '' @ inference_id))
      else if filter (\<lambda>r. o_inference_id r = SText inference_id) (tbl_object (db c)) = []
      then Inr []
      else Inr (map object_tuple
                  (filter (\<lambda>r. o_inference_id r = SText inference_id) (tbl_object (db c)))))"
proof (intro conjI)
  show "fst (get_inference b c inference_id) =
     (if rejects b (SelectInference (SText inference_id)) (db c) \<or>
         filter (\<lambda>r. i_id r = SText inference_id) (tbl_inference (db c)) = []
      then Inl (InferenceNotFoundError (''Error: could not get inference '' @ inference_id))
      else Inr (i_inference (hd (filter (\<lambda>r. i_id r = SText inference_id)
                                   (tbl_inference (db c))))))"
    unfolding get_inference_result by (simp split: list.splits)
  show "fst (get_inference_object b c object_id) =
     (if rejects b (SelectObject (SText object_id)) (db c) \<or>
         filter (\<lambda>r. o_id r = SText object_id) (tbl_object (db c)) = []
      then Inl (InferenceObjectNotFoundError
             (''Error: could not get inference object for id '' @ object_id))
      else Inr (object_tuple (hd (filter (\<lambda>r. o_id r = SText object_id)
                                    (tbl_object (db c))))))"
    unfolding get_inference_object_result by (simp split: list.splits)
  show "fst (get_objects_by_inference b c inference_id) =
     (if rejects b (SelectObjectsByInference (SText inference_id)) (db c)
      then Inl (InferenceObjectNotFoundError
             (''Error: could not get objects for inference '' @ inference_id))
      else if filter (\<lambda>r. o_inference_id r = SText inference_id) (tbl_object (db c)) = []
      then Inr []
      else Inr (map object_tuple
                  (filter (\<lambda>r. o_inference_id r = SText inference_id) (tbl_object (db c)))))"
    unfolding get_objects_by_inference_result by simp
qed

theorem read_errors_are_not_found_witness:
  "fst (get_inference (sample_backend False) sample_cursor ''inf-9'') =
     Inl (InferenceNotFoundError ''Error: could not get inference inf-9'') \<and>
   fst (get_inference (sample_backend True) sample_cursor ''inf-1'') =
     Inl (InferenceNotFoundError ''Error: could not get inference inf-1'') \<and>
   fst (get_inference (sample_backend False) sample_cursor ''inf-1'') = Inr (SText ''{}'') \<and>
   fst (get_inference_object (sample_backend False) sample_cursor ''obj-9'') =
     Inl (InferenceObjectNotFoundError ''Error: could not get inference object for id obj-9'') \<and>
   fst (get_objects_by_inference (sample_backend True) sample_cursor ''inf-1'') =
     Inl (InferenceObjectNotFoundError ''Error: could not get objects for inference inf-1'')"
  using read_errors_are_not_found [of "sample_backend False" sample_cursor "''inf-9''" "''obj-9''"]
    read_errors_are_not_found [of "sample_backend True" sample_cursor "''inf-1''" "''obj-1''"]
    read_errors_are_not_found [of "sample_backend False" sample_cursor "''inf-1''" "''obj-1''"]
  by (simp add: sample_backend_def sample_cursor_def sample_database_def)

text \<open>
  C3 as stated fails on two of the four functions: with no object of the inference,
  \<^verbatim>\<open>get_objects_by_inference\<close> returns the empty list and raises nothing, and with no
  object of the id, \<^verbatim>\<open>get_inference_object_top_id\<close> raises the builtin \<^verbatim>\<open>Exception\<close>, which
  is no not-found error.
\<close>

theorem read_errors_counterexample:
  "fst (get_objects_by_inference (sample_backend False) sample_cursor ''inf-9'') = Inr [] \<and>
   fst (get_inference_object_top_id (sample_backend False) sample_cursor ''obj-9'') =
     Inl (PyException ''Error: could not get top_inference_id for inference obj-9'') \<and>
   exn_class (PyException ''Error: could not get top_inference_id for inference obj-9'') =
     ''Exception''"
  by (simp add: get_objects_by_inference_result get_inference_object_top_id_result
      sample_backend_def sample_cursor_def sample_database_def)

text \<open>
  C8. \<^verbatim>\<open>get_objects_by_inference\<close> returns the rows of the object table whose
  \<^verbatim>\<open>inference_id\<close> is the given id, all of them and in the order of the table; when there
  is none it returns the empty list; it raises \<^verbatim>\<open>InferenceObjectNotFoundError\<close> exactly when
  the driver raises on the statement.
\<close>

theorem objects_by_inference_are_all_matching_rows:
  "fst (get_objects_by_inference b c inference_id) =
     (if rejects b (SelectObjectsByInference (SText inference_id)) (db c)
      then Inl (InferenceObjectNotFoundError
             (''Error: could not get objects for inference '' @ inference_id))
      else Inr (map object_tuple
                  (filter (\<lambda>r. o_inference_id r = SText inference_id) (tbl_object (db c))))) \<and>
   (filter (\<lambda>r. o_inference_id r = SText inference_id) (tbl_object (db c)) = [] \<and>
    \<not> rejects b (SelectObjectsByInference (SText inference_id)) (db c) \<longrightarrow>
    fst (get_objects_by_inference b c inference_id) = Inr [])"
  by (simp add: get_objects_by_inference_result)

theorem objects_by_inference_are_all_matching_rows_witness:
  "fst (get_objects_by_inference (sample_backend False) sample_cursor ''inf-1'') =
     Inr [[SText ''obj-1'', SText ''inf-1'', SText ''{}'', SInt 1, SNull, SNull, SBool True,
           STimestamp 3]] \<and>
   fst (get_objects_by_inference (sample_backend False) sample_cursor ''inf-3'') = Inr []"
  using objects_by_inference_are_all_matching_rows
      [of "sample_backend False" sample_cursor "''inf-1''"]
    objects_by_inference_are_all_matching_rows
      [of "sample_backend False" sample_cursor "''inf-3''"]
  by (simp add: sample_backend_def sample_cursor_def sample_database_def object_tuple_def)

section \<open>Creating\<close>

lemma new_inference_result:
  "fst (new_inference b c inference user_id picture_id type) =
     (if rejects b (InsertInference (SText inference) (SText picture_id) (SText user_id)) (db c)
      then Inl (InferenceCreationError ''Error: inference not uploaded'')
      else Inr (i_id (inference_defaults b (db c))))"
  unfolding new_inference_def first_column_result by (simp add: Let_def)

lemma new_inference_object_result:
  "fst (new_inference_object b c inference_id box_metadata type_id) =
     (if rejects b (InsertObject (SText inference_id) (SText box_metadata) (SInt type_id)) (db c)
      then Inl (InferenceCreationError ''Error: inference object not uploaded'')
      else Inr (o_id (object_defaults b (db c))))"
  unfolding new_inference_object_def first_column_result by (simp add: Let_def)

lemma new_seed_object_result:
  "fst (new_seed_object b c seed_id object_id score) =
     (if rejects b (InsertSeedObject (SText seed_id) (SText object_id) (SFloat score)) (db c)
      then Inl (SeedObjectCreationError ''Error: seed object not uploaded'')
      else Inr (s_id (seed_obj_defaults b (db c))))"
  unfolding new_seed_object_def first_column_result by (simp add: Let_def)

text \<open>
  C4, as the code has it. An insert fails exactly when the driver raises on its
  statement. \<^verbatim>\<open>new_inference\<close> then raises \<^verbatim>\<open>InferenceCreationError\<close> with the message
  \<^verbatim>\<open>Error: inference not uploaded\<close>, \<^verbatim>\<open>new_inference_object\<close> raises the same class
  \<^verbatim>\<open>InferenceCreationError\<close> with the message \<^verbatim>\<open>Error: inference object not uploaded\<close>, and
  \<^verbatim>\<open>new_seed_object\<close> raises \<^verbatim>\<open>SeedObjectCreationError\<close>; otherwise each returns the id of the
  new row.
\<close>

theorem creation_errors:
  "fst (new_inference b c inference user_id picture_id type) =
     (if rejects b (InsertInference (SText inference) (SText picture_id) (SText user_id)) (db c)
      then Inl (InferenceCreationError ''Error: inference not uploaded'')
      else Inr (i_id (inference_defaults b (db c)))) \<and>
   fst (new_inference_object b c inference_id box_metadata type_id) =
     (if rejects b (InsertObject (SText inference_id) (SText box_metadata) (SInt type_id)) (db c)
      then Inl (InferenceCreationError ''Error: inference object not uploaded'')
      else Inr (o_id (object_defaults b (db c)))) \<and>
   fst (new_seed_object b c seed_id object_id score) =
     (if rejects b (InsertSeedObject (SText seed_id) (SText object_id) (SFloat score)) (db c)
      then Inl (SeedObjectCreationError ''Error: seed object not uploaded'')
      else Inr (s_id (seed_obj_defaults b (db c))))"
  using new_inference_result [of b c inference user_id picture_id type]
    new_inference_object_result [of b c inference_id box_metadata type_id]
    new_seed_object_result [of b c seed_id object_id score]
  by (intro conjI)

theorem creation_errors_witness:
  "fst (new_inference (sample_backend True) sample_cursor ''{}'' ''u1'' ''pic-1'' ''seed'') =
     Inl (InferenceCreationError ''Error: inference not uploaded'') \<and>
   fst (new_inference_object (sample_backend True) sample_cursor ''inf-1'' ''{}'' 1) =
     Inl (InferenceCreationError ''Error: inference object not uploaded'') \<and>
   fst (new_seed_object (sample_backend True) sample_cursor ''seed-1'' ''obj-1''
          0x3FE8000000000000) =
     Inl (SeedObjectCreationError ''Error: seed object not uploaded'') \<and>
   fst (new_seed_object (sample_backend False) sample_cursor ''seed-1'' ''obj-1''
          0x3FE8000000000000) = Inr (SInt 0)"
  using creation_errors [of "sample_backend True" sample_cursor "''{}''" "''u1''" "''pic-1''"
      "''seed''" "''inf-1''" "''{}''" 1 "''seed-1''" "''obj-1''" "0x3FE8000000000000"]
    creation_errors [of "sample_backend False" sample_cursor "''{}''" "''u1''" "''pic-1''"
      "''seed''" "''inf-1''" "''{}''" 1 "''seed-1''" "''obj-1''" "0x3FE8000000000000"]
  by (simp add: sample_backend_def sample_cursor_def sample_database_def)

text \<open>
  C4 as stated fails: when the insert of an object fails, \<^verbatim>\<open>new_inference_object\<close> raises
  an exception of the class that \<^verbatim>\<open>new_inference\<close> raises; the two differ in their message
  only.
\<close>

theorem creation_errors_counterexample:
  "fst (new_inference (sample_backend True) sample_cursor ''{}'' ''u1'' ''pic-1'' ''seed'') =
     Inl (InferenceCreationError ''Error: inference not uploaded'') \<and>
   fst (new_inference_object (sample_backend True) sample_cursor ''inf-1'' ''{}'' 1) =
     Inl (InferenceCreationError ''Error: inference object not uploaded'') \<and>
   exn_class (InferenceCreationError ''Error: inference object not uploaded'') =
     exn_class (InferenceCreationError ''Error: inference not uploaded'')"
  by (simp add: new_inference_result new_inference_object_result sample_backend_def)

text \<open>
  C10. The \<^verbatim>\<open>type\<close> argument of \<^verbatim>\<open>new_inference\<close> has no effect: two calls that differ in it
  only, whatever the types of the two values, give the same result or exception and leave
  the same cursor, and the one statement either hands to the cursor is the insert with
  the inference, the picture id and the user id as parameters.
\<close>

theorem new_inference_ignores_type:
  "new_inference b c inference user_id picture_id type1 =
     new_inference b c inference user_id picture_id type2 \<and>
   sent (snd (new_inference b c inference user_id picture_id type1)) =
     sent c @ [InsertInference (SText inference) (SText picture_id) (SText user_id)]"
  unfolding new_inference_def first_column_sent by simp

theorem new_inference_ignores_type_witness:
  "fst (new_inference (sample_backend False) sample_cursor ''{}'' ''u1'' ''pic-1'' ''seed'') =
     fst (new_inference (sample_backend False) sample_cursor ''{}'' ''u1'' ''pic-1'' (7::int)) \<and>
   sent (snd (new_inference (sample_backend False) sample_cursor ''{}'' ''u1'' ''pic-1'' True)) =
     [InsertInference (SText ''{}'') (SText ''pic-1'') (SText ''u1'')]"
  using new_inference_ignores_type
      [of "sample_backend False" sample_cursor "''{}''" "''u1''" "''pic-1''" "''seed''" "7::int"]
    new_inference_ignores_type
      [of "sample_backend False" sample_cursor "''{}''" "''u1''" "''pic-1''" True True]
  by (simp add: sample_cursor_def)

section \<open>Updating\<close>

lemma update_keeps_tables:
  "\<forall>r\<in>set (tbl_inference d). i_id r \<noteq> SText inference_id \<Longrightarrow>
     fst (run b (UpdateFeedbackUserId v (SText inference_id)) d) = d \<and>
     fst (run b (UpdateVerified v (SText inference_id)) d) = d"
  "\<forall>r\<in>set (tbl_object d). o_id r \<noteq> SText object_id \<Longrightarrow>
     fst (run b (UpdateTopId v (SText object_id)) d) = d \<and>
     fst (run b (UpdateVerifiedId v (SText object_id)) d) = d \<and>
     fst (run b (UpdateValid v (SText object_id)) d) = d"
  by (simp_all add: map_unchanged)

lemma setter_sent: "sent (snd (except_Exception E (execute b c s))) = sent c @ [s]"
  by (simp add: except_Exception_def execute_def)

text \<open>
  C5. A setter hands its one update to the cursor, whatever the id, and looks at nothing
  afterwards. When the driver does not raise on the statement, the setter returns
  normally and the table is the old one with the column set in every row of the id, in
  no row when there is none: then the tables are as they were, and the setter has
  returned normally all the same.
\<close>

theorem setters_do_not_check_existence:
  "(sent (snd (set_inference_feedback_user_id b c inference_id user_id)) =
      sent c @ [UpdateFeedbackUserId (SText user_id) (SText inference_id)] \<and>
    (\<not> rejects b (UpdateFeedbackUserId (SText user_id) (SText inference_id)) (db c) \<longrightarrow>
      fst (set_inference_feedback_user_id b c inference_id user_id) = Inr () \<and>
      db (snd (set_inference_feedback_user_id b c inference_id user_id)) =
        (db c)\<lparr>tbl_inference :=
          map (\<lambda>r. if i_id r = SText inference_id
                    then r\<lparr>i_feedback_user_id := SText user_id\<rparr> else r)
            (tbl_inference (db c))\<rparr> \<and>
      ((\<forall>r\<in>set (tbl_inference (db c)). i_id r \<noteq> SText inference_id) \<longrightarrow>
         db (snd (set_inference_feedback_user_id b c inference_id user_id)) = db c))) \<and>
   (sent (snd (set_inference_verified b c inference_id is_verified)) =
      sent c @ [UpdateVerified (SBool is_verified) (SText inference_id)] \<and>
    (\<not> rejects b (UpdateVerified (SBool is_verified) (SText inference_id)) (db c) \<longrightarrow>
      fst (set_inference_verified b c inference_id is_verified) = Inr () \<and>
      db (snd (set_inference_verified b c inference_id is_verified)) =
        (db c)\<lparr>tbl_inference :=
          map (\<lambda>r. if i_id r = SText inference_id
                    then r\<lparr>i_verified := SBool is_verified\<rparr> else r)
            (tbl_inference (db c))\<rparr> \<and>
      ((\<forall>r\<in>set (tbl_inference (db c)). i_id r \<noteq> SText inference_id) \<longrightarrow>
         db (snd (set_inference_verified b c inference_id is_verified)) = db c))) \<and>
   (sent (snd (set_inference_object_top_id b c object_id top_id)) =
      sent c @ [UpdateTopId (SText top_id) (SText object_id)] \<and>
    (\<not> rejects b (UpdateTopId (SText top_id) (SText object_id)) (db c) \<longrightarrow>
      fst (set_inference_object_top_id b c object_id top_id) = Inr () \<and>
      db (snd (set_inference_object_top_id b c object_id top_id)) =
        (db c)\<lparr>tbl_object :=
          map (\<lambda>r. if o_id r = SText object_id then r\<lparr>o_top_id := SText top_id\<rparr> else r)
            (tbl_object (db c))\<rparr> \<and>
      ((\<forall>r\<in>set (tbl_object (db c)). o_id r \<noteq> SText object_id) \<longrightarrow>
         db (snd (set_inference_object_top_id b c object_id top_id)) = db c))) \<and>
   (sent (snd (set_inference_object_verified_id b c object_id verified_id)) =
      sent c @ [UpdateVerifiedId (SText verified_id) (SText object_id)] \<and>
    (\<not> rejects b (UpdateVerifiedId (SText verified_id) (SText object_id)) (db c) \<longrightarrow>
      fst (set_inference_object_verified_id b c object_id verified_id) = Inr () \<and>
      db (snd (set_inference_object_verified_id b c object_id verified_id)) =
        (db c)\<lparr>tbl_object :=
          map (\<lambda>r. if o_id r = SText object_id
                    then r\<lparr>o_verified_id := SText verified_id,
                           o_updated_at := current_timestamp b (db c)\<rparr>
                    else r)
            (tbl_object (db c))\<rparr> \<and>
      ((\<forall>r\<in>set (tbl_object (db c)). o_id r \<noteq> SText object_id) \<longrightarrow>
         db (snd (set_inference_object_verified_id b c object_id verified_id)) = db c))) \<and>
   (sent (snd (set_inference_object_valid b c object_id is_valid)) =
      sent c @ [UpdateValid (SBool is_valid) (SText object_id)] \<and>
    (\<not> rejects b (UpdateValid (SBool is_valid) (SText object_id)) (db c) \<longrightarrow>
      fst (set_inference_object_valid b c object_id is_valid) = Inr () \<and>
      db (snd (set_inference_object_valid b c object_id is_valid)) =
        (db c)\<lparr>tbl_object :=
          map (\<lambda>r. if o_id r = SText object_id then r\<lparr>o_valid := SBool is_valid\<rparr> else r)
            (tbl_object (db c))\<rparr> \<and>
      ((\<forall>r\<in>set (tbl_object (db c)). o_id r \<noteq> SText object_id) \<longrightarrow>
         db (snd (set_inference_object_valid b c object_id is_valid)) = db c)))"
  unfolding set_inference_feedback_user_id_def set_inference_verified_def
    set_inference_object_top_id_def set_inference_object_verified_id_def
    set_inference_object_valid_def setter_result setter_db setter_sent
  using update_keeps_tables [of "db c" inference_id b]
    update_keeps_tables [of "db c" object_id b]
  by simp

theorem setters_do_not_check_existence_witness:
  "fst (set_inference_feedback_user_id (sample_backend False) sample_cursor ''inf-9'' ''u2'')
     = Inr () \<and>
   db (snd (set_inference_feedback_user_id (sample_backend False) sample_cursor ''inf-9'' ''u2''))
     = sample_database \<and>
   sent (snd (set_inference_feedback_user_id (sample_backend False) sample_cursor ''inf-9''
          ''u2'')) = [UpdateFeedbackUserId (SText ''u2'') (SText ''inf-9'')] \<and>
   map i_feedback_user_id (tbl_inference (db (snd
     (set_inference_feedback_user_id (sample_backend False) sample_cursor ''inf-1'' ''u2''))))
     = [SText ''u2''] \<and>
   fst (set_inference_verified (sample_backend False) sample_cursor ''inf-9'' True) = Inr () \<and>
   map i_verified (tbl_inference (db (snd
     (set_inference_verified (sample_backend False) sample_cursor ''inf-1'' True))))
     = [SBool True] \<and>
   fst (set_inference_object_top_id (sample_backend False) sample_cursor ''obj-9'' ''seed-1'')
     = Inr () \<and>
   map o_top_id (tbl_object (db (snd
     (set_inference_object_top_id (sample_backend False) sample_cursor ''obj-2'' ''seed-1''))))
     = [SNull, SText ''seed-1''] \<and>
   fst (set_inference_object_verified_id (sample_backend False) sample_cursor ''obj-9''
          ''seed-1'') = Inr () \<and>
   map o_verified_id (tbl_object (db (snd
     (set_inference_object_verified_id (sample_backend False) sample_cursor ''obj-2''
        ''seed-1'')))) = [SNull, SText ''seed-1''] \<and>
   fst (set_inference_object_valid (sample_backend False) sample_cursor ''obj-9'' False)
     = Inr () \<and>
   db (snd (set_inference_object_valid (sample_backend False) sample_cursor ''obj-9'' False))
     = sample_database \<and>
   map o_valid (tbl_object (db (snd
     (set_inference_object_valid (sample_backend False) sample_cursor ''obj-2'' False))))
     = [SBool True, SBool False]"
  using setters_do_not_check_existence
      [of "sample_backend False" sample_cursor "''inf-9''" "''u2''" True "''obj-9''" "''seed-1''"
          "''seed-1''" False]
    setters_do_not_check_existence
      [of "sample_backend False" sample_cursor "''inf-1''" "''u2''" True "''obj-2''" "''seed-1''"
          "''seed-1''" False]
  by (simp add: sample_backend_def sample_cursor_def sample_database_def)

lemma top_id_frame:
  "map (\<lambda>r. r\<lparr>o_top_id := SNull\<rparr>) (tbl_object (fst (run b (UpdateTopId v i) d))) =
     map (\<lambda>r. r\<lparr>o_top_id := SNull\<rparr>) (tbl_object d)"
  "map o_top_id (tbl_object (fst (run b (UpdateTopId v (SText object_id)) d))) =
     map (\<lambda>r. if o_id r = SText object_id then v else o_top_id r) (tbl_object d)"
  "map o_updated_at (tbl_object (fst (run b (UpdateTopId v i) d))) =
     map o_updated_at (tbl_object d)"
  "tbl_inference (fst (run b (UpdateTopId v i) d)) = tbl_inference d"
  "tbl_seed_obj (fst (run b (UpdateTopId v i) d)) = tbl_seed_obj d"
  by simp_all

lemma valid_frame:
  "map (\<lambda>r. r\<lparr>o_valid := SNull\<rparr>) (tbl_object (fst (run b (UpdateValid v i) d))) =
     map (\<lambda>r. r\<lparr>o_valid := SNull\<rparr>) (tbl_object d)"
  "map o_valid (tbl_object (fst (run b (UpdateValid v (SText object_id)) d))) =
     map (\<lambda>r. if o_id r = SText object_id then v else o_valid r) (tbl_object d)"
  "map o_updated_at (tbl_object (fst (run b (UpdateValid v i) d))) =
     map o_updated_at (tbl_object d)"
  "tbl_inference (fst (run b (UpdateValid v i) d)) = tbl_inference d"
  "tbl_seed_obj (fst (run b (UpdateValid v i) d)) = tbl_seed_obj d"
  by simp_all

lemma verified_id_frame:
  "map (\<lambda>r. r\<lparr>o_verified_id := SNull, o_updated_at := SNull\<rparr>)
       (tbl_object (fst (run b (UpdateVerifiedId v i) d))) =
     map (\<lambda>r. r\<lparr>o_verified_id := SNull, o_updated_at := SNull\<rparr>) (tbl_object d)"
  "map o_verified_id (tbl_object (fst (run b (UpdateVerifiedId v (SText object_id)) d))) =
     map (\<lambda>r. if o_id r = SText object_id then v else o_verified_id r) (tbl_object d)"
  "map o_updated_at (tbl_object (fst (run b (UpdateVerifiedId v (SText object_id)) d))) =
     map (\<lambda>r. if o_id r = SText object_id then current_timestamp b d else o_updated_at r)
       (tbl_object d)"
  "tbl_inference (fst (run b (UpdateVerifiedId v i) d)) = tbl_inference d"
  "tbl_seed_obj (fst (run b (UpdateVerifiedId v i) d)) = tbl_seed_obj d"
  by simp_all

text \<open>
  C9. \<^verbatim>\<open>set_inference_object_top_id\<close> and \<^verbatim>\<open>set_inference_object_valid\<close> leave every row of
  the object table as it was in every column but \<^verbatim>\<open>top_id\<close>, respectively \<^verbatim>\<open>valid\<close>, so in
  \<^verbatim>\<open>updated_at\<close> too; \<^verbatim>\<open>set_inference_object_verified_id\<close> leaves every column but
  \<^verbatim>\<open>verified_id\<close> and \<^verbatim>\<open>updated_at\<close>, and when the driver does not raise it gives the rows of
  the id the new \<^verbatim>\<open>verified_id\<close> and the timestamp of the database. None of the three
  touches another table.
\<close>

theorem only_verified_id_stamps_updated_at:
  "map (\<lambda>r. r\<lparr>o_top_id := SNull\<rparr>)
       (tbl_object (db (snd (set_inference_object_top_id b c object_id top_id)))) =
     map (\<lambda>r. r\<lparr>o_top_id := SNull\<rparr>) (tbl_object (db c)) \<and>
   map o_updated_at (tbl_object (db (snd (set_inference_object_top_id b c object_id top_id)))) =
     map o_updated_at (tbl_object (db c)) \<and>
   map (\<lambda>r. r\<lparr>o_valid := SNull\<rparr>)
       (tbl_object (db (snd (set_inference_object_valid b c object_id is_valid)))) =
     map (\<lambda>r. r\<lparr>o_valid := SNull\<rparr>) (tbl_object (db c)) \<and>
   map o_updated_at (tbl_object (db (snd (set_inference_object_valid b c object_id is_valid)))) =
     map o_updated_at (tbl_object (db c)) \<and>
   map (\<lambda>r. r\<lparr>o_verified_id := SNull, o_updated_at := SNull\<rparr>)
       (tbl_object (db (snd (set_inference_object_verified_id b c object_id verified_id)))) =
     map (\<lambda>r. r\<lparr>o_verified_id := SNull, o_updated_at := SNull\<rparr>) (tbl_object (db c)) \<and>
   (\<not> rejects b (UpdateVerifiedId (SText verified_id) (SText object_id)) (db c) \<longrightarrow>
      map o_verified_id
          (tbl_object (db (snd (set_inference_object_verified_id b c object_id verified_id)))) =
        map (\<lambda>r. if o_id r = SText object_id then SText verified_id else o_verified_id r)
          (tbl_object (db c)) \<and>
      map o_updated_at
          (tbl_object (db (snd (set_inference_object_verified_id b c object_id verified_id)))) =
        map (\<lambda>r. if o_id r = SText object_id then current_timestamp b (db c) else o_updated_at r)
          (tbl_object (db c))) \<and>
   (\<not> rejects b (UpdateTopId (SText top_id) (SText object_id)) (db c) \<longrightarrow>
      map o_top_id (tbl_object (db (snd (set_inference_object_top_id b c object_id top_id)))) =
        map (\<lambda>r. if o_id r = SText object_id then SText top_id else o_top_id r)
          (tbl_object (db c))) \<and>
   (\<not> rejects b (UpdateValid (SBool is_valid) (SText object_id)) (db c) \<longrightarrow>
      map o_valid (tbl_object (db (snd (set_inference_object_valid b c object_id is_valid)))) =
        map (\<lambda>r. if o_id r = SText object_id then SBool is_valid else o_valid r)
          (tbl_object (db c))) \<and>
   tbl_inference (db (snd (set_inference_object_top_id b c object_id top_id))) =
     tbl_inference (db c) \<and>
   tbl_seed_obj (db (snd (set_inference_object_top_id b c object_id top_id))) =
     tbl_seed_obj (db c) \<and>
   tbl_inference (db (snd (set_inference_object_valid b c object_id is_valid))) =
     tbl_inference (db c) \<and>
   tbl_seed_obj (db (snd (set_inference_object_valid b c object_id is_valid))) =
     tbl_seed_obj (db c) \<and>
   tbl_inference (db (snd (set_inference_object_verified_id b c object_id verified_id))) =
     tbl_inference (db c) \<and>
   tbl_seed_obj (db (snd (set_inference_object_verified_id b c object_id verified_id))) =
     tbl_seed_obj (db c)"
  unfolding set_inference_object_top_id_def set_inference_object_verified_id_def
    set_inference_object_valid_def setter_db
  by (simp add: top_id_frame valid_frame verified_id_frame del: run.simps)

theorem only_verified_id_stamps_updated_at_witness:
  "map o_updated_at
     (tbl_object (db (snd (set_inference_object_verified_id (sample_backend False) sample_cursor
        ''obj-1'' ''seed-1'')))) = [STimestamp 7, STimestamp 4] \<and>
   map o_verified_id
     (tbl_object (db (snd (set_inference_object_verified_id (sample_backend False) sample_cursor
        ''obj-1'' ''seed-1'')))) = [SText ''seed-1'', SNull] \<and>
   map o_updated_at
     (tbl_object (db (snd (set_inference_object_top_id (sample_backend False) sample_cursor
        ''obj-1'' ''seed-1'')))) = [STimestamp 3, STimestamp 4] \<and>
   map o_top_id
     (tbl_object (db (snd (set_inference_object_top_id (sample_backend False) sample_cursor
        ''obj-1'' ''seed-1'')))) = [SText ''seed-1'', SNull] \<and>
   map o_updated_at
     (tbl_object (db (snd (set_inference_object_valid (sample_backend False) sample_cursor
        ''obj-1'' False)))) = [STimestamp 3, STimestamp 4] \<and>
   map o_valid
     (tbl_object (db (snd (set_inference_object_valid (sample_backend False) sample_cursor
        ''obj-1'' False)))) = [SBool False, SBool True]"
  using only_verified_id_stamps_updated_at
      [of "sample_backend False" sample_cursor "''obj-1''" "''seed-1''" False "''seed-1''"]
  by (simp add: sample_backend_def sample_cursor_def sample_database_def)

end
